theory Spec2Isabelle
  imports Complex_Main
begin

section \<open>Results of calls that may raise\<close>

text \<open>
  The update step of \<^verbatim>\<open>src/algorithms/a2c.cpp\<close> is a sequence of libtorch calls, each of
  which either returns a tensor or throws. A throw is a value of \<open>error\<close>; the call
  returns \<open>Inl\<close> of it and nothing after it runs.
  \<^item> \<open>ShapeError\<close>: a \<^verbatim>\<open>view\<close> whose shape does not fit, operands that do not
    broadcast, \<^verbatim>\<open>backward()\<close> on a tensor that is not a single element;
  \<^item> \<open>IndexError\<close>: a dimension or an index that the tensor (or the vector) does not have;
    where C++ leaves such a read undefined, the model raises this error;
  \<^item> \<open>NotANumber\<close>: the mean of a tensor without elements, which libtorch returns as
    NaN. The model idealises \<^verbatim>\<open>float\<close> as \<open>real\<close>, which has no NaN, so the call stops
    there with this outcome;
  \<^item> \<open>PolicyError\<close>: whatever the policy's \<^verbatim>\<open>evaluate_actions\<close> throws.
\<close>

datatype error = ShapeError | IndexError | NotANumber | PolicyError

definition bindE :: "error + 'a \<Rightarrow> ('a \<Rightarrow> error + 'b) \<Rightarrow> error + 'b" where
  "bindE m f = (case m of Inl e \<Rightarrow> Inl e | Inr x \<Rightarrow> f x)"

section \<open>Tensors\<close>

text \<open>
  A contiguous tensor: its sizes and its elements in row-major order. Every tensor of
  the update is contiguous (the storage's buffers, a slice of leading rows of one, a
  view of one, the result of an arithmetic operation), so strides are not modelled.
\<close>

record 'a tensor =
  sizes :: "nat list"
  elems :: "'a list"

definition numel :: "'a tensor \<Rightarrow> nat" where
  "numel t = prod_list (sizes t)"

text \<open>The invariant of a tensor of the library: as many elements as its sizes say.\<close>

definition tensor_ok :: "'a tensor \<Rightarrow> bool" where
  "tensor_ok t \<longleftrightarrow> length (elems t) = numel t"

text \<open>\<^verbatim>\<open>t.size(d)\<close>, a negative \<open>d\<close> counting from the last dimension.\<close>

definition size_at :: "'a tensor \<Rightarrow> int \<Rightarrow> error + int" where
  "size_at t d =
     (let n = int (length (sizes t)) in
      if - n \<le> d \<and> d < n then Inr (int (sizes t ! nat (if d < 0 then d + n else d)))
      else Inl IndexError)"

text \<open>
  \<^verbatim>\<open>t.slice(0, start, stop)\<close> with step 1: the rows \<open>start \<dots> stop - 1\<close> of the first
  dimension. Negative bounds count from the end, and both are clamped to the size.
\<close>

definition slice0 :: "'a tensor \<Rightarrow> int \<Rightarrow> int \<Rightarrow> error + 'a tensor" where
  "slice0 t start stop =
     (case sizes t of
        [] \<Rightarrow> Inl IndexError
      | n # rest \<Rightarrow>
          let s1 = (if start < 0 then start + int n else start);
              e1 = (if stop < 0 then stop + int n else stop);
              s2 = (if s1 < 0 then 0 else if int n \<le> s1 then int n else s1);
              e2 = (if e1 < s2 then s2 else if int n \<le> e1 then int n else e1);
              row = prod_list rest
          in Inr \<lparr>sizes = nat (e2 - s2) # rest,
                  elems = take (nat (e2 - s2) * row) (drop (nat s2 * row) (elems t))\<rparr>)"

text \<open>\<^verbatim>\<open>t[index]\<close>: row \<open>index\<close> of the first dimension, without that dimension.\<close>

definition select0 :: "'a tensor \<Rightarrow> int \<Rightarrow> error + 'a tensor" where
  "select0 t index =
     (case sizes t of
        [] \<Rightarrow> Inl IndexError
      | n # rest \<Rightarrow>
          if index < - int n \<or> int n \<le> index then Inl IndexError
          else
            let i = nat (if index < 0 then index + int n else index);
                row = prod_list rest
            in Inr \<lparr>sizes = rest, elems = take row (drop (i * row) (elems t))\<rparr>)"

text \<open>
  \<^verbatim>\<open>t.view(shape)\<close>. At most one entry of the shape is \<open>-1\<close> and is inferred from the
  number of elements; no other entry is negative; the sizes must multiply to the number
  of elements. An inferred dimension beside a dimension of size 0 is ambiguous and
  refused.
\<close>

definition infer_size :: "int list \<Rightarrow> nat \<Rightarrow> error + nat list" where
  "infer_size shape n =
     (if list_ex (\<lambda>d. d < - 1) shape \<or> 1 < length (filter (\<lambda>d. d = - 1) shape)
      then Inl ShapeError
      else
        let newsize = nat (prod_list (filter (\<lambda>d. d \<noteq> - 1) shape));
            infer = list_ex (\<lambda>d. d = - 1) shape
        in
          if n = newsize \<or> (infer \<and> 0 < newsize \<and> n mod newsize = 0) then
            (if infer then
               (if newsize = 0 then Inl ShapeError
                else Inr (map (\<lambda>d. if d = - 1 then n div newsize else nat d) shape))
             else Inr (map nat shape))
          else Inl ShapeError)"

definition view :: "'a tensor \<Rightarrow> int list \<Rightarrow> error + 'a tensor" where
  "view t shape = bindE (infer_size shape (numel t)) (\<lambda>s. Inr (t\<lparr>sizes := s\<rparr>))"

subsection \<open>Broadcasting\<close>

text \<open>
  Two shapes are aligned at their last dimension; a missing dimension counts as 1; two
  sizes are compatible when they are equal or one of them is 1.
\<close>

fun broadcast_rev :: "nat list \<Rightarrow> nat list \<Rightarrow> nat list option" where
  "broadcast_rev [] ys = Some ys"
| "broadcast_rev (x # xs) [] = Some (x # xs)"
| "broadcast_rev (x # xs) (y # ys) =
     (if x = y \<or> y = 1 then map_option ((#) x) (broadcast_rev xs ys)
      else if x = 1 then map_option ((#) y) (broadcast_rev xs ys)
      else None)"

definition broadcast_shapes :: "nat list \<Rightarrow> nat list \<Rightarrow> nat list option" where
  "broadcast_shapes xs ys = map_option rev (broadcast_rev (rev xs) (rev ys))"

definition chunks :: "nat \<Rightarrow> nat \<Rightarrow> 'a list \<Rightarrow> 'a list list" where
  "chunks n d xs = map (\<lambda>i. take n (drop (i * n) xs)) [0..<d]"

text \<open>
  \<open>expand from to xs\<close>: the elements of a tensor of sizes \<open>from\<close> expanded to the sizes
  \<open>to\<close> (of the same length): a dimension of size 1 is repeated.
\<close>

fun expand :: "nat list \<Rightarrow> nat list \<Rightarrow> 'a list \<Rightarrow> 'a list" where
  "expand (d # ds) (e # es) xs =
     (if d = e then concat (map (expand ds es) (chunks (prod_list ds) d xs))
      else concat (replicate e (expand ds es xs)))"
| "expand ds es xs = xs"

definition expand_to :: "nat list \<Rightarrow> 'a tensor \<Rightarrow> 'a list" where
  "expand_to s t =
     expand (replicate (length s - length (sizes t)) 1 @ sizes t) s (elems t)"

text \<open>An element-wise binary operation of the library, with broadcasting.\<close>

definition pointwise ::
  "('a \<Rightarrow> 'b \<Rightarrow> 'c) \<Rightarrow> 'a tensor \<Rightarrow> 'b tensor \<Rightarrow> error + 'c tensor" where
  "pointwise f a b =
     (case broadcast_shapes (sizes a) (sizes b) of
        None \<Rightarrow> Inl ShapeError
      | Some s \<Rightarrow> Inr \<lparr>sizes = s, elems = map2 f (expand_to s a) (expand_to s b)\<rparr>)"

definition map_tensor :: "('a \<Rightarrow> 'b) \<Rightarrow> 'a tensor \<Rightarrow> 'b tensor" where
  "map_tensor f t = \<lparr>sizes = sizes t, elems = map f (elems t)\<rparr>"

section \<open>Scalars with gradient history\<close>

text \<open>
  \<^verbatim>\<open>float\<close> is idealised as \<open>real\<close>. A scalar that takes part in automatic
  differentiation is its value together with its derivative with respect to the
  policy's parameters, a vector of the parameters' space \<open>'g\<close>: this derivative is what
  \<^verbatim>\<open>backward()\<close> adds to the parameters' \<^verbatim>\<open>.grad\<close>. Each operation below is the
  library's operation with its differentiation rule.
\<close>

record 'g tracked =
  item :: real
  deriv :: "'g"

text \<open>A value without gradient history, as the tensors of the rollout storage are.\<close>

definition untracked :: "real \<Rightarrow> 'g::real_vector tracked" where
  "untracked x = \<lparr>item = x, deriv = 0\<rparr>"

text \<open>\<^verbatim>\<open>detach()\<close>: the same value, cut off from its history.\<close>

definition detach :: "'g::real_vector tracked \<Rightarrow> 'g tracked" where
  "detach a = \<lparr>item = item a, deriv = 0\<rparr>"

definition add :: "'g::real_vector tracked \<Rightarrow> 'g tracked \<Rightarrow> 'g tracked" where
  "add a b = \<lparr>item = item a + item b, deriv = deriv a + deriv b\<rparr>"

definition sub :: "'g::real_vector tracked \<Rightarrow> 'g tracked \<Rightarrow> 'g tracked" where
  "sub a b = \<lparr>item = item a - item b, deriv = deriv a - deriv b\<rparr>"

definition mul :: "'g::real_vector tracked \<Rightarrow> 'g tracked \<Rightarrow> 'g tracked" where
  "mul a b = \<lparr>item = item a * item b, deriv = item a *\<^sub>R deriv b + item b *\<^sub>R deriv a\<rparr>"

definition neg :: "'g::real_vector tracked \<Rightarrow> 'g tracked" where
  "neg a = \<lparr>item = - item a, deriv = - deriv a\<rparr>"

text \<open>\<^verbatim>\<open>t * c\<close> for a \<^verbatim>\<open>float\<close> \<open>c\<close>.\<close>

definition mul_float :: "'g::real_vector tracked \<Rightarrow> real \<Rightarrow> 'g tracked" where
  "mul_float a c = \<lparr>item = item a * c, deriv = c *\<^sub>R deriv a\<rparr>"

text \<open>\<^verbatim>\<open>pow(n)\<close> for a whole exponent.\<close>

definition pow :: "'g::real_vector tracked \<Rightarrow> nat \<Rightarrow> 'g tracked" where
  "pow a n = \<lparr>item = item a ^ n, deriv = (real n * item a ^ (n - 1)) *\<^sub>R deriv a\<rparr>"

text \<open>
  \<^verbatim>\<open>mean()\<close>: a tensor of no dimensions holding the mean of all elements. Of a tensor
  without elements the library returns NaN.
\<close>

definition mean_of :: "'g::real_vector tracked list \<Rightarrow> 'g tracked" where
  "mean_of xs = \<lparr>item = sum_list (map item xs) / real (length xs),
                 deriv = sum_list (map deriv xs) /\<^sub>R real (length xs)\<rparr>"

definition mean :: "'g::real_vector tracked tensor \<Rightarrow> error + 'g tracked tensor" where
  "mean t =
     (if elems t = [] then Inl NotANumber
      else Inr \<lparr>sizes = [], elems = [mean_of (elems t)]\<rparr>)"

text \<open>
  The one element of a tensor that has exactly one: what \<^verbatim>\<open>item()\<close> reads, and what
  \<^verbatim>\<open>backward()\<close> requires of the tensor it starts from.
\<close>

definition single :: "'a tensor \<Rightarrow> error + 'a" where
  "single t = (case elems t of [x] \<Rightarrow> Inr x | _ \<Rightarrow> Inl ShapeError)"

text \<open>Element \<open>i\<close> of a \<^verbatim>\<open>std::vector\<close>; reading past its end is an error.\<close>

definition at_index :: "'a list \<Rightarrow> nat \<Rightarrow> error + 'a" where
  "at_index xs i = (if i < length xs then Inr (xs ! i) else Inl IndexError)"

text \<open>The conversion of an \<^verbatim>\<open>int64_t\<close> size to \<^verbatim>\<open>int\<close> (32 bits, two's complement).\<close>

definition to_int :: "int \<Rightarrow> int" where
  "to_int n = signed_take_bit 31 n"

section \<open>The rollout storage, the policy and the optimiser\<close>

text \<open>
  \<^verbatim>\<open>cpprl/storage.h\<close> is not among the sources. \<^verbatim>\<open>A2C::update\<close> reads the storage
  through six accessors, each returning one tensor of the storage; the record has these
  six tensors. None of them has gradient history.
\<close>

record RolloutStorage =
  observations :: "real tensor"
  hidden_states :: "real tensor"
  rewards :: "real tensor"
  actions :: "real tensor"
  masks :: "real tensor"
  returns :: "real tensor"

text \<open>
  The policy's mutable state: its parameters, a vector of \<open>'g\<close>, and the gradient
  accumulated on them (their \<^verbatim>\<open>.grad\<close>).
\<close>

record 'g Policy =
  parameters :: "'g"
  grads :: "'g"

record RMSpropOptions =
  lr :: real
  eps :: real
  alpha :: real

record 'o RMSprop =
  opt_options :: RMSpropOptions
  opt_state :: "'o"

record ('g, 'o) A2C =
  policy :: "'g Policy"
  value_loss_coef :: real
  entropy_coef :: real
  max_grad_norm :: real
  optimizer :: "'o RMSprop"

text \<open>
  What the file calls and does not define, taken as parameters:
  \<^item> \<open>evaluate_actions\<close>: the policy's network as a function of the parameters and of
    the four argument tensors, returning the vector of result tensors (value, action
    log-probability, entropy) with their derivatives with respect to the parameters;
  \<^item> \<open>get_hidden_size\<close>;
  \<^item> \<open>rmsprop_new\<close>: the state of a new \<^verbatim>\<open>torch::optim::RMSprop\<close> over the parameters;
  \<^item> \<open>rmsprop_step\<close>: one \<^verbatim>\<open>step()\<close> of it, from the options, the optimiser's state,
    the parameters and their gradient to the new state and the new parameters.
\<close>

record ('g, 'o) externals =
  evaluate_actions ::
    "'g \<Rightarrow> real tensor \<Rightarrow> real tensor \<Rightarrow> real tensor \<Rightarrow> real tensor
       \<Rightarrow> error + 'g tracked tensor list"
  get_hidden_size :: nat
  rmsprop_new :: "'g \<Rightarrow> RMSpropOptions \<Rightarrow> 'o"
  rmsprop_step :: "RMSpropOptions \<Rightarrow> 'o \<Rightarrow> 'g \<Rightarrow> 'g \<Rightarrow> 'o \<times> 'g"

record UpdateDatum =
  datum_name :: string
  datum_value :: real

section \<open>The constructor\<close>

text \<open>\<^verbatim>\<open>A2C::A2C\<close>, lines 15 to 30.\<close>

definition A2C_new ::
  "('g, 'o) externals \<Rightarrow> 'g Policy \<Rightarrow> real \<Rightarrow> real \<Rightarrow> real \<Rightarrow> real \<Rightarrow> real \<Rightarrow> real
     \<Rightarrow> ('g, 'o) A2C" where
  "A2C_new env pol value_loss_coef' entropy_coef' learning_rate epsilon alpha' max_grad_norm' =
     (let opts = \<lparr>lr = learning_rate, eps = epsilon, alpha = alpha'\<rparr> in
      \<lparr>policy = pol,
       value_loss_coef = value_loss_coef',
       entropy_coef = entropy_coef',
       max_grad_norm = max_grad_norm',
       optimizer = \<lparr>opt_options = opts, opt_state = rmsprop_new env (parameters pol) opts\<rparr>\<rparr>)"

section \<open>The update\<close>

text \<open>
  Lines 34 to 41: the shape for the view of the observations (\<open>-1\<close> before the sizes
  of one observation), the size of one action, and the numbers of steps and of processes
  read off the rewards' sizes and converted to \<^verbatim>\<open>int\<close>. Observations of fewer than two
  dimensions (the iterator \<^verbatim>\<open>begin() + 2\<close> would pass the end) and rewards of fewer than
  two are undefined behaviour in C++; the model raises \<open>IndexError\<close>.
\<close>

definition rollout_shapes :: "RolloutStorage \<Rightarrow> error + (int list \<times> int \<times> int \<times> int)" where
  "rollout_shapes rollouts =
     (let full_obs_shape = sizes (observations rollouts) in
      if length full_obs_shape < 2 then Inl IndexError
      else
        let obs_shape = - 1 # map int (drop 2 full_obs_shape) in
        bindE (size_at (actions rollouts) (- 1)) (\<lambda>action_shape.
        let rewards_shape = sizes (rewards rollouts) in
        bindE (at_index rewards_shape 0) (\<lambda>n0.
        bindE (at_index rewards_shape 1) (\<lambda>n1.
        Inr (obs_shape, action_shape, to_int (int n0), to_int (int n1))))))"

text \<open>
  Lines 44 to 47: the four arguments of \<^verbatim>\<open>evaluate_actions\<close>. C++ leaves the order in
  which they are evaluated open; the model takes them from left to right, which decides
  only which error is reported when more than one of them raises.
\<close>

definition evaluate_arguments ::
  "nat \<Rightarrow> RolloutStorage \<Rightarrow> int list \<Rightarrow> int
     \<Rightarrow> error + (real tensor \<times> real tensor \<times> real tensor \<times> real tensor)" where
  "evaluate_arguments hidden_size rollouts obs_shape action_shape =
     bindE (slice0 (observations rollouts) 0 (- 1)) (\<lambda>front.
     bindE (view front obs_shape) (\<lambda>obs.
     bindE (select0 (hidden_states rollouts) 0) (\<lambda>h.
     bindE (view h [- 1, int hidden_size]) (\<lambda>hid.
     bindE (slice0 (masks rollouts) 0 (- 1)) (\<lambda>m.
     bindE (view m [- 1, 1]) (\<lambda>msk.
     bindE (view (actions rollouts) [- 1, action_shape]) (\<lambda>act.
     Inr (obs, hid, msk, act))))))))"

text \<open>The local variables of \<^verbatim>\<open>A2C::update\<close>.\<close>

record 'g update_locals =
  evaluate_result :: "'g tracked tensor list"
  values_t :: "'g tracked tensor"
  action_log_probs :: "'g tracked tensor"
  advantages :: "'g tracked tensor"
  value_loss :: "'g tracked tensor"
  action_loss :: "'g tracked tensor"
  entropy :: "'g tracked tensor"
  loss :: "'g tracked tensor"

text \<open>
  Lines 34 to 57 and 59 to 61: from the storage to the loss. \<open>entropy\<close> is
  \<^verbatim>\<open>evaluate_result[2]\<close>.
\<close>

definition update_forward ::
  "('g::real_vector, 'o) externals \<Rightarrow> ('g, 'o) A2C \<Rightarrow> RolloutStorage
     \<Rightarrow> error + 'g update_locals" where
  "update_forward env a rollouts =
     bindE (rollout_shapes rollouts) (\<lambda>(obs_shape, action_shape, num_steps, num_processes).
     bindE (evaluate_arguments (get_hidden_size env) rollouts obs_shape action_shape)
       (\<lambda>(obs, hid, msk, act).
     bindE (evaluate_actions env (parameters (policy a)) obs hid msk act) (\<lambda>res.
     bindE (at_index res 0) (\<lambda>res0.
     bindE (view res0 [num_steps, num_processes, 1]) (\<lambda>vals.
     bindE (at_index res 1) (\<lambda>res1.
     bindE (view res1 [num_steps, num_processes, 1]) (\<lambda>alp.
     bindE (slice0 (returns rollouts) 0 (- 1)) (\<lambda>ret.
     bindE (pointwise sub (map_tensor untracked ret) vals) (\<lambda>adv.
     bindE (mean (map_tensor (\<lambda>x. pow x 2) adv)) (\<lambda>vloss.
     bindE (pointwise mul (map_tensor detach adv) alp) (\<lambda>weighted.
     bindE (mean weighted) (\<lambda>m.
     let aloss = map_tensor neg m in
     bindE (at_index res 2) (\<lambda>res2.
     bindE (pointwise add (map_tensor (\<lambda>x. mul_float x (value_loss_coef a)) vloss) aloss)
       (\<lambda>partial.
     bindE (pointwise sub partial (map_tensor (\<lambda>x. mul_float x (entropy_coef a)) res2))
       (\<lambda>total.
     Inr \<lparr>evaluate_result = res, values_t = vals, action_log_probs = alp, advantages = adv,
          value_loss = vloss, action_loss = aloss, entropy = res2, loss = total\<rparr>
     )))))))))))))))"

text \<open>\<^verbatim>\<open>optimizer->zero_grad()\<close>, line 58.\<close>

definition zero_grad :: "'g::real_vector Policy \<Rightarrow> 'g Policy" where
  "zero_grad pol = pol\<lparr>grads := 0\<rparr>"

text \<open>
  \<^verbatim>\<open>loss.backward()\<close>, line 62: the tensor must be a single element, whose derivative
  is added to the gradient accumulated on the parameters.
\<close>

definition backward :: "'g::real_vector tracked tensor \<Rightarrow> 'g Policy \<Rightarrow> error + 'g Policy" where
  "backward t pol = bindE (single t) (\<lambda>x. Inr (pol\<lparr>grads := grads pol + deriv x\<rparr>))"

text \<open>\<^verbatim>\<open>optimizer->step()\<close>, line 64.\<close>

definition step :: "('g, 'o) externals \<Rightarrow> 'o RMSprop \<Rightarrow> 'g Policy \<Rightarrow> 'o RMSprop \<times> 'g Policy" where
  "step env opt pol =
     (case rmsprop_step env (opt_options opt) (opt_state opt) (parameters pol) (grads pol) of
        (st, ps) \<Rightarrow> (opt\<lparr>opt_state := st\<rparr>, pol\<lparr>parameters := ps\<rparr>))"

text \<open>
  \<^verbatim>\<open>A2C::update\<close>, lines 32 to 69. The storage is passed by reference; the function
  returns the algorithm object and the storage as the call leaves them, and the vector
  of named scalars. The loss of lines 59 to 61 reads nothing that line 58 writes, so it
  is computed with the rest of the forward pass. A call that raises is abandoned: what
  it leaves behind (the gradient may already be zeroed) is not part of the model.
\<close>

definition update ::
  "('g::real_vector, 'o) externals \<Rightarrow> ('g, 'o) A2C \<Rightarrow> RolloutStorage
     \<Rightarrow> error + (('g, 'o) A2C \<times> RolloutStorage \<times> UpdateDatum list)" where
  "update env a rollouts =
     bindE (update_forward env a rollouts) (\<lambda>l.
     bindE (backward (loss l) (zero_grad (policy a))) (\<lambda>pol.
     case step env (optimizer a) pol of (opt', pol') \<Rightarrow>
     bindE (single (value_loss l)) (\<lambda>v.
     bindE (single (action_loss l)) (\<lambda>al.
     bindE (single (entropy l)) (\<lambda>e.
     Inr (a\<lparr>policy := pol', optimizer := opt'\<rparr>, rollouts,
          [\<lparr>datum_name = ''Value loss'', datum_value = item v\<rparr>,
           \<lparr>datum_name = ''Action loss'', datum_value = item al\<rparr>,
           \<lparr>datum_name = ''Entropy'', datum_value = item e\<rparr>]))))))"

section \<open>Well-formed inputs\<close>

text \<open>
  Modelled from the spec: the layout of the storage's buffers (the constructor of
  \<^verbatim>\<open>RolloutStorage\<close> is not among the sources). For \<open>T\<close> steps, \<open>P\<close> processes,
  observations of sizes \<open>os\<close>, actions of size \<open>A\<close> and hidden states of size \<open>H\<close>:
  observations, hidden states, masks and returns have \<open>T + 1\<close> slots, rewards and
  actions have \<open>T\<close>.
\<close>

definition has_shape :: "'a tensor \<Rightarrow> nat list \<Rightarrow> bool" where
  "has_shape t s \<longleftrightarrow> sizes t = s \<and> length (elems t) = prod_list s"

definition storage_shaped ::
  "nat \<Rightarrow> nat \<Rightarrow> nat list \<Rightarrow> nat \<Rightarrow> nat \<Rightarrow> RolloutStorage \<Rightarrow> bool" where
  "storage_shaped T P os A H r \<longleftrightarrow>
     has_shape (observations r) (Suc T # P # os) \<and>
     has_shape (hidden_states r) [Suc T, P, H] \<and>
     has_shape (rewards r) [T, P, 1] \<and>
     has_shape (actions r) [T, P, A] \<and>
     has_shape (masks r) [Suc T, P, 1] \<and>
     has_shape (returns r) [Suc T, P, 1]"

text \<open>
  The tensors that the policy returns satisfy the invariant of tensors, as every tensor
  of the library does.
\<close>

definition policy_ok :: "('g, 'o) externals \<Rightarrow> bool" where
  "policy_ok env \<longleftrightarrow>
     (\<forall>ps obs hid msk act res.
        evaluate_actions env ps obs hid msk act = Inr res \<longrightarrow> list_all tensor_ok res)"

text \<open>\<^verbatim>\<open>t[i][j]\<close>.\<close>

definition entry2 :: "'a tensor \<Rightarrow> nat \<Rightarrow> nat \<Rightarrow> error + 'a tensor" where
  "entry2 t i j = bindE (select0 t (int i)) (\<lambda>row. select0 row (int j))"

section \<open>A concrete instance\<close>

text \<open>
  A policy with one real parameter \<open>w\<close>: the value of a transition is \<open>w\<close> times its
  observation, the log-probability \<open>w\<close> times its action, the entropy \<open>w\<close> itself. The
  optimiser stands in for RMSprop: plain gradient descent that counts its steps. The
  storage holds two steps of two processes.
\<close>

definition demo_evaluate ::
  "real \<Rightarrow> real tensor \<Rightarrow> real tensor \<Rightarrow> real tensor \<Rightarrow> real tensor
     \<Rightarrow> error + real tracked tensor list" where
  "demo_evaluate w obs hid msk act =
     Inr [\<lparr>sizes = [length (elems obs), 1],
           elems = map (\<lambda>x. \<lparr>item = w * x, deriv = x\<rparr>) (elems obs)\<rparr>,
          \<lparr>sizes = [length (elems act), 1],
           elems = map (\<lambda>x. \<lparr>item = w * x, deriv = x\<rparr>) (elems act)\<rparr>,
          \<lparr>sizes = [], elems = [\<lparr>item = w, deriv = 1\<rparr>]\<rparr>]"

definition demo_env :: "(real, nat) externals" where
  "demo_env =
     \<lparr>evaluate_actions = demo_evaluate,
      get_hidden_size = 1,
      rmsprop_new = (\<lambda>ps opts. 0),
      rmsprop_step = (\<lambda>opts st ps g. (Suc st, ps - lr opts * g))\<rparr>"

definition demo_rollouts :: RolloutStorage where
  "demo_rollouts =
     \<lparr>observations = \<lparr>sizes = [3, 2, 1], elems = [1, 2, 3, 4, 5, 6]\<rparr>,
      hidden_states = \<lparr>sizes = [3, 2, 1], elems = [0, 0, 7, 7, 7, 7]\<rparr>,
      rewards = \<lparr>sizes = [2, 2, 1], elems = [1, 0, 0, 1]\<rparr>,
      actions = \<lparr>sizes = [2, 2, 1], elems = [1, 0, 0, 1]\<rparr>,
      masks = \<lparr>sizes = [3, 2, 1], elems = [1, 1, 1, 1, 1, 1]\<rparr>,
      returns = \<lparr>sizes = [3, 2, 1], elems = [5, 4, 3, 5, 1, 0]\<rparr>\<rparr>"

definition demo_policy :: "real Policy" where
  "demo_policy = \<lparr>parameters = 1, grads = 9\<rparr>"

definition demo_a2c :: "(real, nat) A2C" where
  "demo_a2c =
     A2C_new demo_env demo_policy (1 / 2) (1 / 100) (1 / 10) (1 / 10 ^ 8) (99 / 100) (1 / 2)"

text \<open>The algorithm object and the scalars that the update of this instance returns.\<close>

definition demo_a2c_after :: "(real, nat) A2C" where
  "demo_a2c_after =
     demo_a2c\<lparr>policy := \<lparr>parameters = 713 / 500, grads = - (213 / 50)\<rparr>,
              optimizer := (optimizer demo_a2c)\<lparr>opt_state := 1\<rparr>\<rparr>"

definition demo_out :: "UpdateDatum list" where
  "demo_out =
     [\<lparr>datum_name = ''Value loss'', datum_value = 21 / 4\<rparr>,
      \<lparr>datum_name = ''Action loss'', datum_value = - (5 / 4)\<rparr>,
      \<lparr>datum_name = ''Entropy'', datum_value = 1\<rparr>]"

text \<open>The storage of the instance with other hidden states after slot 0.\<close>

definition demo_rollouts_hidden :: RolloutStorage where
  "demo_rollouts_hidden =
     demo_rollouts\<lparr>hidden_states := \<lparr>sizes = [3, 2, 1], elems = [0, 0, 1, 2, 3, 4]\<rparr>\<rparr>"

text \<open>What a call leaves behind, but for the storage: the algorithm object and the named scalars.\<close>

definition without_storage ::
  "error + (('g, 'o) A2C \<times> RolloutStorage \<times> UpdateDatum list)
     \<Rightarrow> error + (('g, 'o) A2C \<times> UpdateDatum list)" where
  "without_storage res = map_sum id (\<lambda>(a', r', out). (a', out)) res"

text \<open>
  What a call leaves behind of the policy and the optimiser, and what it returns: the named
  scalars, the parameters, the gradient on the parameters and the optimiser.
\<close>

definition observable ::
  "error + (('g, 'o) A2C \<times> RolloutStorage \<times> UpdateDatum list)
     \<Rightarrow> error + (UpdateDatum list \<times> 'g Policy \<times> 'o RMSprop)" where
  "observable res = map_sum id (\<lambda>(a', r', out). (out, policy a', optimizer a')) res"

section \<open>Auxiliary facts\<close>

lemma bindE_simps [simp]:
  "bindE (Inr x) f = f x"
  "bindE (Inl e) f = Inl e"
  by (simp_all add: bindE_def)

lemma bindE_eq_Inr: "bindE m f = Inr y \<longleftrightarrow> (\<exists>x. m = Inr x \<and> f x = Inr y)"
  by (cases m) simp_all

lemma concat_chunks: "concat (chunks n d xs) = take (d * n) xs"
proof (induction d)
  case 0
  show ?case by (simp add: chunks_def)
next
  case (Suc d)
  have "concat (chunks n (Suc d) xs) = concat (chunks n d xs) @ take n (drop (d * n) xs)"
    by (simp add: chunks_def)
  also have "\<dots> = take (d * n + n) xs"
    by (simp add: Suc.IH take_add)
  finally show ?case by (simp add: add.commute)
qed

lemma length_chunk:
  assumes "length xs = d * n" "c \<in> set (chunks n d xs)"
  shows "length c = n"
proof -
  from assms(2) obtain i where i: "i < d" and c: "c = take n (drop (i * n) xs)"
    by (auto simp: chunks_def)
  from i have "Suc i \<le> d" by simp
  then have "Suc i * n \<le> d * n" by (rule mult_le_mono1)
  then have "n \<le> d * n - i * n" by simp
  with assms(1) c show ?thesis by simp
qed

lemma expand_same: "length xs = prod_list s \<Longrightarrow> expand s s xs = xs"
proof (induction s arbitrary: xs)
  case Nil
  then show ?case by simp
next
  case (Cons d ds)
  have len: "length xs = d * prod_list ds" using Cons.prems by simp
  have "map (expand ds ds) (chunks (prod_list ds) d xs) = chunks (prod_list ds) d xs"
    by (rule map_idI) (simp add: Cons.IH length_chunk [OF len])
  then show ?case by (simp add: concat_chunks len)
qed

lemma broadcast_rev_same: "broadcast_rev xs xs = Some xs"
  by (induction xs) simp_all

lemma broadcast_shapes_same: "broadcast_shapes s s = Some s"
  by (simp add: broadcast_shapes_def broadcast_rev_same)

lemma pointwise_same:
  assumes "sizes a = s" "sizes b = s" "length (elems a) = prod_list s" "length (elems b) = prod_list s"
  shows "pointwise f a b = Inr \<lparr>sizes = s, elems = map2 f (elems a) (elems b)\<rparr>"
  using assms by (simp add: pointwise_def broadcast_shapes_same expand_to_def expand_same)

lemma set_expand: "set (expand ds es xs) \<subseteq> set xs"
proof (induction ds es xs rule: expand.induct)
  case (1 d ds e es xs)
  have chunk: "set c \<subseteq> set xs" if "c \<in> set (chunks (prod_list ds) d xs)" for c
    using that by (auto simp: chunks_def dest: in_set_takeD in_set_dropD)
  show ?case
  proof (cases "d = e")
    case True
    with 1 chunk show ?thesis by fastforce
  next
    case False
    with 1 show ?thesis by (cases e) auto
  qed
qed simp_all


lemma to_int_small: "n < 2 ^ 31 \<Longrightarrow> to_int (int n) = int n"
proof -
  assume "n < 2 ^ 31"
  then have "int n < 2 ^ 31" by (metis of_nat_less_iff of_nat_numeral of_nat_power)
  then show ?thesis
    unfolding to_int_def by (intro signed_take_bit_int_eq_self) simp_all
qed

lemma rollout_shapes_shaped:
  assumes "storage_shaped T P os A H r" "T < 2 ^ 31" "P < 2 ^ 31"
  shows "rollout_shapes r = Inr (- 1 # map int os, int A, int T, int P)"
  using assms
  by (simp add: rollout_shapes_def storage_shaped_def has_shape_def size_at_def at_index_def
      to_int_small)

lemma prod_list_map_int: "prod_list (map int os) = int (prod_list os)"
  by (induction os) simp_all

lemma infer_size_flat:
  assumes "0 < prod_list os" "n = k * prod_list os"
  shows "infer_size (- 1 # map int os) n = Inr (k # os)"
proof -
  have a: "\<not> list_ex (\<lambda>d. d < - 1) (map int os)"
    by (simp add: list_ex_iff)
  have b: "filter (\<lambda>d. d = - 1) (map int os) = []"
    by (simp add: filter_empty_conv)
  have c: "filter (\<lambda>d. d \<noteq> - 1) (map int os) = map int os"
    by (simp add: filter_id_conv)
  have d: "map (\<lambda>d. if d = - 1 then n div prod_list os else nat d) (map int os) = os"
    by (simp add: map_idI)
  have e: "n div prod_list os = k"
    using assms by simp
  have f: "n mod prod_list os = 0"
    using assms by simp
  from assms(1) a b c d e f show ?thesis
    by (simp add: infer_size_def prod_list_map_int Let_def del: map_map)
qed

lemma infer_size_exact:
  "infer_size (map int s) n = (if n = prod_list s then Inr s else Inl ShapeError)"
proof -
  have a: "\<not> list_ex (\<lambda>d. d < - 1) (map int s)"
    by (simp add: list_ex_iff)
  have b: "filter (\<lambda>d. d = - 1) (map int s) = []"
    by (simp add: filter_empty_conv)
  have c: "filter (\<lambda>d. d \<noteq> - 1) (map int s) = map int s"
    by (simp add: filter_id_conv)
  have d: "\<not> list_ex (\<lambda>d. d = - 1) (map int s)"
    by (auto simp: list_ex_iff)
  have e: "map nat (map int s) = s"
    by (simp add: map_idI)
  from a b c d e show ?thesis
    by (simp add: infer_size_def prod_list_map_int Let_def del: map_map)
qed

lemma view_flat:
  assumes "0 < prod_list os" "numel t = k * prod_list os"
  shows "view t (- 1 # map int os) = Inr (t\<lparr>sizes := k # os\<rparr>)"
  using assms by (simp add: view_def infer_size_flat)

lemma view_exact:
  "view t (map int s) = (if numel t = prod_list s then Inr (t\<lparr>sizes := s\<rparr>) else Inl ShapeError)"
  by (simp add: view_def infer_size_exact)

lemma slice0_front:
  assumes "sizes t = Suc n # rest"
  shows "slice0 t 0 (- 1) = Inr \<lparr>sizes = n # rest, elems = take (n * prod_list rest) (elems t)\<rparr>"
  using assms by (simp add: slice0_def Let_def)

lemma select0_first:
  assumes "sizes t = Suc n # rest"
  shows "select0 t 0 = Inr \<lparr>sizes = rest, elems = take (prod_list rest) (elems t)\<rparr>"
  using assms by (simp add: select0_def Let_def)

lemma evaluate_arguments_shaped:
  assumes "storage_shaped T P os A H r" "0 < prod_list os" "0 < A" "0 < H"
  shows "evaluate_arguments H r (- 1 # map int os) (int A) =
     Inr (\<lparr>sizes = (T * P) # os, elems = take (T * P * prod_list os) (elems (observations r))\<rparr>,
          \<lparr>sizes = [P, H], elems = take (P * H) (elems (hidden_states r))\<rparr>,
          \<lparr>sizes = [T * P, 1], elems = take (T * P) (elems (masks r))\<rparr>,
          \<lparr>sizes = [T * P, A], elems = elems (actions r)\<rparr>)"
proof -
  have obs: "sizes (observations r) = Suc T # P # os"
    and hid: "sizes (hidden_states r) = [Suc T, P, H]"
    and msk: "sizes (masks r) = [Suc T, P, 1]"
    and act: "sizes (actions r) = [T, P, A]"
    using assms(1) by (simp_all add: storage_shaped_def has_shape_def)
  have v1: "view \<lparr>sizes = T # P # os, elems = xs\<rparr> (- 1 # map int os)
      = Inr \<lparr>sizes = (T * P) # os, elems = xs\<rparr>" for xs :: "real list"
    using view_flat [of os "\<lparr>sizes = T # P # os, elems = xs\<rparr>" "T * P"] assms(2) by (simp add: numel_def)
  have v2: "view \<lparr>sizes = [P, H], elems = xs\<rparr> [- 1, int H]
      = Inr \<lparr>sizes = [P, H], elems = xs\<rparr>" for xs :: "real list"
    using view_flat [of "[H]" "\<lparr>sizes = [P, H], elems = xs\<rparr>" P] assms(4) by (simp add: numel_def)
  have v3: "view \<lparr>sizes = [T, P, Suc 0], elems = xs\<rparr> [- 1, 1]
      = Inr \<lparr>sizes = [T * P, Suc 0], elems = xs\<rparr>" for xs :: "real list"
    using view_flat [of "[1]" "\<lparr>sizes = [T, P, 1], elems = xs\<rparr>" "T * P"] by (simp add: numel_def)
  have v4: "view (actions r) [- 1, int A] = Inr \<lparr>sizes = [T * P, A], elems = elems (actions r)\<rparr>"
    using view_flat [of "[A]" "actions r" "T * P"] assms(3) act by (simp add: numel_def)
  show ?thesis
    by (simp add: evaluate_arguments_def slice0_front [OF obs] select0_first [OF hid]
        slice0_front [OF msk] v1 v2 v3 v4 mult.assoc)
qed


lemma single_eq_Inr: "single t = Inr x \<longleftrightarrow> elems t = [x]"
  by (auto simp: single_def split: list.splits)

lemma mean_eq_Inr: "mean t = Inr m \<longleftrightarrow> elems t \<noteq> [] \<and> m = \<lparr>sizes = [], elems = [mean_of (elems t)]\<rparr>"
  by (auto simp: mean_def)

lemma at_index_eq_Inr: "at_index xs i = Inr x \<longleftrightarrow> i < length xs \<and> x = xs ! i"
  by (auto simp: at_index_def)

lemma forward_shaped:
  assumes sh: "storage_shaped T P os A H r"
    and bounds: "T < 2 ^ 31" "P < 2 ^ 31"
    and pos: "0 < prod_list os" "0 < A" "0 < H"
    and hs: "get_hidden_size env = H"
    and ok: "policy_ok env"
    and fwd: "update_forward env a r = Inr l"
  shows "evaluate_actions env (parameters (policy a))
           \<lparr>sizes = (T * P) # os, elems = take (T * P * prod_list os) (elems (observations r))\<rparr>
           \<lparr>sizes = [P, H], elems = take (P * H) (elems (hidden_states r))\<rparr>
           \<lparr>sizes = [T * P, 1], elems = take (T * P) (elems (masks r))\<rparr>
           \<lparr>sizes = [T * P, A], elems = elems (actions r)\<rparr> = Inr (evaluate_result l)"
    and "3 \<le> length (evaluate_result l)"
    and "0 < T * P"
    and "values_t l = \<lparr>sizes = [T, P, 1], elems = elems (evaluate_result l ! 0)\<rparr>"
    and "length (elems (values_t l)) = T * P"
    and "action_log_probs l = \<lparr>sizes = [T, P, 1], elems = elems (evaluate_result l ! 1)\<rparr>"
    and "length (elems (action_log_probs l)) = T * P"
    and "advantages l = \<lparr>sizes = [T, P, 1],
           elems = map2 sub (map untracked (take (T * P) (elems (returns r)))) (elems (values_t l))\<rparr>"
    and "value_loss l = \<lparr>sizes = [], elems = [mean_of (map (\<lambda>x. pow x 2) (elems (advantages l)))]\<rparr>"
    and "action_loss l = \<lparr>sizes = [],
           elems = [neg (mean_of (map2 mul (map detach (elems (advantages l)))
                                     (elems (action_log_probs l))))]\<rparr>"
    and "entropy l = evaluate_result l ! 2"
proof -
  note shapes = rollout_shapes_shaped [OF sh bounds]
  note args = evaluate_arguments_shaped [OF sh pos]
  from fwd obtain res res0 vals res1 alp ret adv vloss weighted m partial total
    where ev: "evaluate_actions env (parameters (policy a))
           \<lparr>sizes = (T * P) # os, elems = take (T * P * prod_list os) (elems (observations r))\<rparr>
           \<lparr>sizes = [P, H], elems = take (P * H) (elems (hidden_states r))\<rparr>
           \<lparr>sizes = [T * P, 1], elems = take (T * P) (elems (masks r))\<rparr>
           \<lparr>sizes = [T * P, A], elems = elems (actions r)\<rparr> = Inr res"
      and r0: "at_index res 0 = Inr res0"
      and v0: "view res0 [int T, int P, 1] = Inr vals"
      and r1: "at_index res 1 = Inr res1"
      and v1: "view res1 [int T, int P, 1] = Inr alp"
      and sl: "slice0 (returns r) 0 (- 1) = Inr ret"
      and ad: "pointwise sub (map_tensor untracked ret) vals = Inr adv"
      and vl: "mean (map_tensor (\<lambda>x. pow x 2) adv) = Inr vloss"
      and we: "pointwise mul (map_tensor detach adv) alp = Inr weighted"
      and me: "mean weighted = Inr m"
      and r2: "at_index res 2 = Inr (entropy l)"
      and l: "l = \<lparr>evaluate_result = res, values_t = vals, action_log_probs = alp,
            advantages = adv, value_loss = vloss, action_loss = map_tensor neg m,
            entropy = entropy l, loss = total\<rparr>"
    unfolding update_forward_def shapes hs args bindE_simps prod.case Let_def bindE_eq_Inr
    by auto
  have res: "evaluate_result l = res" and vals: "values_t l = vals"
    and alp: "action_log_probs l = alp" and adv: "advantages l = adv"
    and vloss: "value_loss l = vloss" and aloss: "action_loss l = map_tensor neg m"
    by (subst l, simp)+
  from r0 r1 r2 have len: "2 < length res" and res0: "res0 = res ! 0" and res1: "res1 = res ! 1"
    and res2: "entropy l = res ! 2"
    by (simp_all add: at_index_eq_Inr)
  from ok ev have "list_all tensor_ok res"
    unfolding policy_ok_def by blast
  moreover from r0 r1 have "res ! 0 \<in> set res" and "res ! 1 \<in> set res"
    by (simp_all only: at_index_eq_Inr nth_mem)
  ultimately have ok0: "tensor_ok (res ! 0)" and ok1: "tensor_ok (res ! 1)"
    by (simp_all add: list_all_iff)
  have shape3: "[int T, int P, 1] = map int [T, P, 1]" by simp
  from v0 have n0: "numel res0 = T * P" and vals_eq: "vals = res0\<lparr>sizes := [T, P, 1]\<rparr>"
    unfolding shape3 view_exact by (simp_all split: if_splits)
  from v1 have n1: "numel res1 = T * P" and alp_eq: "alp = res1\<lparr>sizes := [T, P, 1]\<rparr>"
    unfolding shape3 view_exact by (simp_all split: if_splits)
  have l0: "length (elems res0) = T * P"
    using ok0 n0 by (simp add: res0 tensor_ok_def)
  have l1: "length (elems res1) = T * P"
    using ok1 n1 by (simp add: res1 tensor_ok_def)
  have len0: "length (elems vals) = T * P"
    using l0 by (simp add: vals_eq)
  have len1: "length (elems alp) = T * P"
    using l1 by (simp add: alp_eq)
  have ret_shape: "sizes (returns r) = [Suc T, P, 1]"
    and ret_len: "length (elems (returns r)) = Suc T * P"
    using sh by (simp_all add: storage_shaped_def has_shape_def)
  have ret: "ret = \<lparr>sizes = [T, P, 1], elems = take (T * P) (elems (returns r))\<rparr>"
    using sl by (simp add: slice0_front [OF ret_shape])
  have adv_eq: "adv = \<lparr>sizes = [T, P, 1],
      elems = map2 sub (map untracked (take (T * P) (elems (returns r)))) (elems vals)\<rparr>"
    using ad pointwise_same [of "map_tensor untracked ret" "[T, P, 1]" vals sub]
    by (simp add: ret map_tensor_def vals_eq l0 ret_len)
  have adv_len: "length (elems adv) = T * P"
    by (simp add: adv_eq len0 ret_len)
  have vloss_eq: "vloss = \<lparr>sizes = [], elems = [mean_of (map (\<lambda>x. pow x 2) (elems adv))]\<rparr>"
    and nonempty: "elems adv \<noteq> []"
    using vl by (simp_all add: mean_eq_Inr map_tensor_def)
  have weighted: "weighted = \<lparr>sizes = [T, P, 1],
      elems = map2 mul (map detach (elems adv)) (elems alp)\<rparr>"
    using we pointwise_same [of "map_tensor detach adv" "[T, P, 1]" alp mul]
    by (simp add: map_tensor_def adv_len adv_eq [THEN arg_cong, of sizes, simplified] alp_eq l1)
  have m: "m = \<lparr>sizes = [], elems = [mean_of (elems weighted)]\<rparr>"
    using me by (simp add: mean_eq_Inr)
  show "3 \<le> length (evaluate_result l)"
    using len by (simp add: res)
  show "0 < T * P"
    using nonempty adv_len by (cases "T * P") simp_all
  show "values_t l = \<lparr>sizes = [T, P, 1], elems = elems (evaluate_result l ! 0)\<rparr>"
    by (simp add: vals vals_eq res res0)
  show "length (elems (values_t l)) = T * P"
    by (simp add: vals len0)
  show "action_log_probs l = \<lparr>sizes = [T, P, 1], elems = elems (evaluate_result l ! 1)\<rparr>"
    by (simp add: alp alp_eq res res1)
  show "length (elems (action_log_probs l)) = T * P"
    by (simp add: alp len1)
  show "advantages l = \<lparr>sizes = [T, P, 1],
           elems = map2 sub (map untracked (take (T * P) (elems (returns r)))) (elems (values_t l))\<rparr>"
    by (simp add: adv vals adv_eq)
  show "value_loss l = \<lparr>sizes = [], elems = [mean_of (map (\<lambda>x. pow x 2) (elems (advantages l)))]\<rparr>"
    by (simp add: vloss vloss_eq adv)
  show "action_loss l = \<lparr>sizes = [],
           elems = [neg (mean_of (map2 mul (map detach (elems (advantages l)))
                                     (elems (action_log_probs l))))]\<rparr>"
    by (simp add: aloss m weighted adv alp map_tensor_def)
  show "entropy l = evaluate_result l ! 2"
    by (simp add: res res2)
  show "evaluate_actions env (parameters (policy a))
           \<lparr>sizes = (T * P) # os, elems = take (T * P * prod_list os) (elems (observations r))\<rparr>
           \<lparr>sizes = [P, H], elems = take (P * H) (elems (hidden_states r))\<rparr>
           \<lparr>sizes = [T * P, 1], elems = take (T * P) (elems (masks r))\<rparr>
           \<lparr>sizes = [T * P, A], elems = elems (actions r)\<rparr> = Inr (evaluate_result l)"
    using ev by (simp add: res)
qed

section \<open>The concrete instance, evaluated\<close>

lemma demo_shaped: "storage_shaped 2 2 [1] 1 1 demo_rollouts"
  by (simp add: storage_shaped_def has_shape_def demo_rollouts_def)

lemma demo_policy_ok: "policy_ok demo_env"
  by (auto simp: policy_ok_def demo_env_def demo_evaluate_def tensor_ok_def numel_def)

lemma demo_env_fields:
  "evaluate_actions demo_env = demo_evaluate"
  "get_hidden_size demo_env = Suc 0"
  "rmsprop_step demo_env = (\<lambda>opts st ps g. (Suc st, ps - lr opts * g))"
  by (simp_all add: demo_env_def)

lemma demo_returns: "returns demo_rollouts = \<lparr>sizes = [3, 2, 1], elems = [5, 4, 3, 5, 1, 0]\<rparr>"
  by (simp add: demo_rollouts_def)

lemma demo_shapes: "rollout_shapes demo_rollouts = Inr ([- 1, 1], 1, 2, 2)"
  using rollout_shapes_shaped [OF demo_shaped] by simp

lemma demo_arguments:
  "evaluate_arguments (Suc 0) demo_rollouts [- 1, 1] 1 =
     Inr (\<lparr>sizes = [4, 1], elems = [1, 2, 3, 4]\<rparr>,
          \<lparr>sizes = [2, 1], elems = [0, 0]\<rparr>,
          \<lparr>sizes = [4, 1], elems = [1, 1, 1, 1]\<rparr>,
          \<lparr>sizes = [4, 1], elems = [1, 0, 0, 1]\<rparr>)"
  using evaluate_arguments_shaped [OF demo_shaped] by (simp add: demo_rollouts_def)

lemma demo_a2c_fields:
  "parameters (policy demo_a2c) = 1" "value_loss_coef demo_a2c = 1 / 2"
  "entropy_coef demo_a2c = 1 / 100" "max_grad_norm demo_a2c = 1 / 2"
  "policy demo_a2c = demo_policy"
  "optimizer demo_a2c = \<lparr>opt_options = \<lparr>lr = 1 / 10, eps = 1 / 10 ^ 8, alpha = 99 / 100\<rparr>, opt_state = 0\<rparr>"
  by (simp_all add: demo_a2c_def A2C_new_def demo_policy_def demo_env_def)

lemma pointwise_aligned:
  assumes "sizes b = sizes a" "length (elems a) = prod_list (sizes a)"
    "length (elems b) = prod_list (sizes a)"
  shows "pointwise f a b = Inr \<lparr>sizes = sizes a, elems = map2 f (elems a) (elems b)\<rparr>"
  using assms by (intro pointwise_same) simp_all

lemma demo_forward:
  "update_forward demo_env demo_a2c demo_rollouts =
     Inr \<lparr>evaluate_result =
            [\<lparr>sizes = [4, 1],
              elems = [\<lparr>item = 1, deriv = 1\<rparr>, \<lparr>item = 2, deriv = 2\<rparr>,
                       \<lparr>item = 3, deriv = 3\<rparr>, \<lparr>item = 4, deriv = 4\<rparr>]\<rparr>,
             \<lparr>sizes = [4, 1],
              elems = [\<lparr>item = 1, deriv = 1\<rparr>, \<lparr>item = 0, deriv = 0\<rparr>,
                       \<lparr>item = 0, deriv = 0\<rparr>, \<lparr>item = 1, deriv = 1\<rparr>]\<rparr>,
             \<lparr>sizes = [], elems = [\<lparr>item = 1, deriv = 1\<rparr>]\<rparr>],
          values_t =
            \<lparr>sizes = [2, 2, 1],
             elems = [\<lparr>item = 1, deriv = 1\<rparr>, \<lparr>item = 2, deriv = 2\<rparr>,
                      \<lparr>item = 3, deriv = 3\<rparr>, \<lparr>item = 4, deriv = 4\<rparr>]\<rparr>,
          action_log_probs =
            \<lparr>sizes = [2, 2, 1],
             elems = [\<lparr>item = 1, deriv = 1\<rparr>, \<lparr>item = 0, deriv = 0\<rparr>,
                      \<lparr>item = 0, deriv = 0\<rparr>, \<lparr>item = 1, deriv = 1\<rparr>]\<rparr>,
          advantages =
            \<lparr>sizes = [2, 2, 1],
             elems = [\<lparr>item = 4, deriv = - 1\<rparr>, \<lparr>item = 2, deriv = - 2\<rparr>,
                      \<lparr>item = 0, deriv = - 3\<rparr>, \<lparr>item = 1, deriv = - 4\<rparr>]\<rparr>,
          value_loss = \<lparr>sizes = [], elems = [\<lparr>item = 21 / 4, deriv = - 6\<rparr>]\<rparr>,
          action_loss = \<lparr>sizes = [], elems = [\<lparr>item = - (5 / 4), deriv = - (5 / 4)\<rparr>]\<rparr>,
          entropy = \<lparr>sizes = [], elems = [\<lparr>item = 1, deriv = 1\<rparr>]\<rparr>,
          loss = \<lparr>sizes = [], elems = [\<lparr>item = 273 / 200, deriv = - (213 / 50)\<rparr>]\<rparr>\<rparr>"
  by (simp add: update_forward_def demo_shapes demo_arguments demo_a2c_fields
      demo_env_fields demo_evaluate_def at_index_def view_def infer_size_def numel_def
      slice0_def demo_returns pointwise_aligned demo_policy_def
      map_tensor_def untracked_def sub_def mean_def mean_of_def pow_def
      detach_def mul_def neg_def mul_float_def add_def Let_def)

lemma demo_update: "update demo_env demo_a2c demo_rollouts = Inr (demo_a2c_after, demo_rollouts, demo_out)"
  by (simp add: update_def demo_forward backward_def single_def zero_grad_def step_def
      demo_a2c_fields demo_policy_def demo_env_fields demo_a2c_after_def demo_out_def)

section \<open>Properties of the update\<close>

lemma pointwise_elem:
  assumes "pointwise f x y = Inr z" "w \<in> set (elems z)"
  shows "\<exists>p\<in>set (elems x). \<exists>q\<in>set (elems y). w = f p q"
proof -
  from assms(1) obtain s where z: "z = \<lparr>sizes = s, elems = map2 f (expand_to s x) (expand_to s y)\<rparr>"
    by (auto simp: pointwise_def split: option.splits)
  with assms(2) obtain p q where "p \<in> set (expand_to s x)" "q \<in> set (expand_to s y)" "w = f p q"
    by (auto dest: set_zip_leftD set_zip_rightD)
  moreover have "set (expand_to s x) \<subseteq> set (elems x)" "set (expand_to s y) \<subseteq> set (elems y)"
    by (simp_all add: expand_to_def set_expand)
  ultimately show ?thesis by blast
qed

lemma forward_loss:
  assumes fwd: "update_forward env a r = Inr l"
    and vl: "single (value_loss l) = Inr vl" and al: "single (action_loss l) = Inr al"
    and e: "single (entropy l) = Inr e" and tot: "single (loss l) = Inr tot"
  shows "tot = sub (add (mul_float vl (value_loss_coef a)) al) (mul_float e (entropy_coef a))"
proof -
  from fwd obtain part
    where p: "pointwise add (map_tensor (\<lambda>x. mul_float x (value_loss_coef a)) (value_loss l))
                (action_loss l) = Inr part"
      and t: "pointwise sub part (map_tensor (\<lambda>x. mul_float x (entropy_coef a)) (entropy l))
                = Inr (loss l)"
    by (auto simp: update_forward_def bindE_eq_Inr Let_def)
  from tot have "tot \<in> set (elems (loss l))"
    by (simp add: single_eq_Inr)
  from pointwise_elem [OF t this] e obtain p' where p': "p' \<in> set (elems part)"
    and t': "tot = sub p' (mul_float e (entropy_coef a))"
    by (auto simp: single_eq_Inr map_tensor_def)
  from pointwise_elem [OF p p'] vl al have "p' = add (mul_float vl (value_loss_coef a)) al"
    by (auto simp: single_eq_Inr map_tensor_def)
  with t' show ?thesis by simp
qed

lemma updateD:
  assumes "update env a r = Inr (a', r', out)"
  obtains l tot vl al e where "update_forward env a r = Inr l"
    and "single (loss l) = Inr tot"
    and "single (value_loss l) = Inr vl" and "single (action_loss l) = Inr al"
    and "single (entropy l) = Inr e"
    and "a' = a\<lparr>policy := \<lparr>parameters = snd (rmsprop_step env (opt_options (optimizer a))
                    (opt_state (optimizer a)) (parameters (policy a)) (deriv tot)),
                  grads = deriv tot\<rparr>,
                optimizer := (optimizer a)\<lparr>opt_state := fst (rmsprop_step env
                    (opt_options (optimizer a)) (opt_state (optimizer a))
                    (parameters (policy a)) (deriv tot))\<rparr>\<rparr>"
    and "r' = r"
    and "out = [\<lparr>datum_name = ''Value loss'', datum_value = item vl\<rparr>,
                \<lparr>datum_name = ''Action loss'', datum_value = item al\<rparr>,
                \<lparr>datum_name = ''Entropy'', datum_value = item e\<rparr>]"
  using assms
  by (cases "policy a")
    (auto simp: update_def bindE_eq_Inr backward_def zero_grad_def step_def
      split: prod.splits)

text \<open>
  Claim C2. Whenever \<^verbatim>\<open>update\<close> returns, the tensor it backpropagated is a single scalar
  equal to \<open>value_loss * value_loss_coef + action_loss - entropy * entropy_coef\<close>, as a
  value and as a derivative with respect to the parameters, and the gradient left on the
  parameters is the derivative of exactly this scalar.
\<close>

theorem update_loss_composition:
  assumes "update env a r = Inr (a', r', out)"
  shows "\<exists>l vl al e tot.
      update_forward env a r = Inr l \<and>
      single (value_loss l) = Inr vl \<and> single (action_loss l) = Inr al \<and>
      single (entropy l) = Inr e \<and> single (loss l) = Inr tot \<and>
      item tot = item vl * value_loss_coef a + item al - item e * entropy_coef a \<and>
      deriv tot = value_loss_coef a *\<^sub>R deriv vl + deriv al - entropy_coef a *\<^sub>R deriv e \<and>
      grads (policy a') = deriv tot"
proof -
  from assms obtain l tot vl al e where fwd: "update_forward env a r = Inr l"
    and tot: "single (loss l) = Inr tot"
    and vl: "single (value_loss l) = Inr vl" and al: "single (action_loss l) = Inr al"
    and e: "single (entropy l) = Inr e"
    and a': "a' = a\<lparr>policy := \<lparr>parameters = snd (rmsprop_step env (opt_options (optimizer a))
                    (opt_state (optimizer a)) (parameters (policy a)) (deriv tot)),
                  grads = deriv tot\<rparr>,
                optimizer := (optimizer a)\<lparr>opt_state := fst (rmsprop_step env
                    (opt_options (optimizer a)) (opt_state (optimizer a))
                    (parameters (policy a)) (deriv tot))\<rparr>\<rparr>"
    by (rule updateD)
  have "tot = sub (add (mul_float vl (value_loss_coef a)) al) (mul_float e (entropy_coef a))"
    using fwd vl al e tot by (rule forward_loss)
  then have "item tot = item vl * value_loss_coef a + item al - item e * entropy_coef a"
    and "deriv tot = value_loss_coef a *\<^sub>R deriv vl + deriv al - entropy_coef a *\<^sub>R deriv e"
    by (simp_all add: sub_def add_def mul_float_def)
  moreover have "grads (policy a') = deriv tot"
    by (simp add: a')
  ultimately show ?thesis
    using fwd vl al e tot by blast
qed


theorem update_loss_composition_witness:
  "update demo_env demo_a2c demo_rollouts = Inr (demo_a2c_after, demo_rollouts, demo_out) \<and>
   (\<exists>l tot. update_forward demo_env demo_a2c demo_rollouts = Inr l \<and>
      single (loss l) = Inr tot \<and>
      item tot = 21 / 4 * (1 / 2) + - (5 / 4) - 1 * (1 / 100) \<and>
      deriv tot = (1 / 2) * - 6 + - (5 / 4) - (1 / 100) * 1 \<and>
      grads (policy demo_a2c_after) = deriv tot)"
  using update_loss_composition [OF demo_update] demo_update
  by (auto simp: demo_forward single_eq_Inr demo_a2c_fields)

text \<open>
  Claim C6. Whenever \<^verbatim>\<open>update\<close> returns, it returns exactly three named scalars, named
  \<open>Value loss\<close>, \<open>Action loss\<close> and \<open>Entropy\<close> in this order, whose values are the value
  loss, the action loss and the entropy computed in the call.
\<close>

theorem update_returns_named_scalars:
  assumes "update env a r = Inr (a', r', out)"
  shows "\<exists>l vl al e.
      update_forward env a r = Inr l \<and>
      single (value_loss l) = Inr vl \<and> single (action_loss l) = Inr al \<and>
      single (entropy l) = Inr e \<and>
      out = [\<lparr>datum_name = ''Value loss'', datum_value = item vl\<rparr>,
             \<lparr>datum_name = ''Action loss'', datum_value = item al\<rparr>,
             \<lparr>datum_name = ''Entropy'', datum_value = item e\<rparr>]"
  using assms by (elim updateD) blast

theorem update_returns_named_scalars_witness:
  "update demo_env demo_a2c demo_rollouts = Inr (demo_a2c_after, demo_rollouts, demo_out) \<and>
   length demo_out = 3 \<and>
   map datum_name demo_out = [''Value loss'', ''Action loss'', ''Entropy''] \<and>
   (\<exists>l. update_forward demo_env demo_a2c demo_rollouts = Inr l \<and>
      map (\<lambda>t. map item (elems t)) [value_loss l, action_loss l, entropy l]
        = map (\<lambda>d. [datum_value d]) demo_out)"
  using update_returns_named_scalars [OF demo_update] demo_update
  by (auto simp: single_eq_Inr demo_out_def)

text \<open>
  Claim C7. Whenever \<^verbatim>\<open>update\<close> returns, the storage passed in is unchanged (and with it
  each of its tensors), and of the algorithm object nothing has changed but the policy
  (its parameters and the gradient on them) and the state of the optimiser: the loss
  coefficients, the clipping threshold and the optimiser's options are as before.
\<close>

theorem update_frame:
  assumes "update env a r = Inr (a', r', out)"
  shows "r' = r \<and>
     a' = a\<lparr>policy := policy a',
            optimizer := (optimizer a)\<lparr>opt_state := opt_state (optimizer a')\<rparr>\<rparr>"
  using assms by (elim updateD) simp

theorem update_frame_witness:
  "update demo_env demo_a2c demo_rollouts = Inr (demo_a2c_after, demo_rollouts, demo_out) \<and>
   demo_a2c_after = demo_a2c\<lparr>policy := policy demo_a2c_after,
       optimizer := (optimizer demo_a2c)\<lparr>opt_state := opt_state (optimizer demo_a2c_after)\<rparr>\<rparr>"
  using update_frame [OF demo_update] demo_update by simp

lemma update_forward_cong:
  assumes "parameters (policy a2) = parameters (policy a1)"
    and "value_loss_coef a2 = value_loss_coef a1" "entropy_coef a2 = entropy_coef a1"
  shows "update_forward env a2 r = update_forward env a1 r"
  by (simp add: update_forward_def assms)

lemma evaluate_arguments_hidden:
  assumes "select0 (hidden_states r2) 0 = select0 (hidden_states r1) 0"
    and "r2 = r1\<lparr>hidden_states := hidden_states r2\<rparr>"
  shows "evaluate_arguments hsize r2 obs_shape action_shape
       = evaluate_arguments hsize r1 obs_shape action_shape"
  by (subst assms(2)) (simp add: evaluate_arguments_def assms(1))

lemma rollout_shapes_hidden:
  assumes "r2 = r1\<lparr>hidden_states := h\<rparr>"
  shows "rollout_shapes r2 = rollout_shapes r1"
  by (simp add: rollout_shapes_def assms Let_def)

text \<open>
  Claim C10. Two storages that differ in their hidden states only, and whose hidden
  states have the same slot 0, give the same outcome: the same error, or the same named
  scalars and the same algorithm object after the call.
\<close>

theorem update_reads_hidden_slot0:
  assumes "select0 (hidden_states r2) 0 = select0 (hidden_states r1) 0"
    and "r2 = r1\<lparr>hidden_states := hidden_states r2\<rparr>"
  shows "without_storage (update env a r2) = without_storage (update env a r1)"
proof -
  have "returns r2 = returns r1"
    by (subst assms(2)) simp
  then have "update_forward env a r2 = update_forward env a r1"
    by (simp add: update_forward_def rollout_shapes_hidden [OF assms(2)]
        evaluate_arguments_hidden [OF assms])
  then show ?thesis
    by (cases "update_forward env a r1")
      (auto simp: update_def without_storage_def bindE_def split: sum.splits prod.splits)
qed

theorem update_reads_hidden_slot0_witness:
  "select0 (hidden_states demo_rollouts_hidden) 0 = select0 (hidden_states demo_rollouts) 0 \<and>
   demo_rollouts_hidden = demo_rollouts\<lparr>hidden_states := hidden_states demo_rollouts_hidden\<rparr> \<and>
   hidden_states demo_rollouts_hidden \<noteq> hidden_states demo_rollouts \<and>
   without_storage (update demo_env demo_a2c demo_rollouts_hidden) = Inr (demo_a2c_after, demo_out)"
proof -
  have h: "select0 (hidden_states demo_rollouts_hidden) 0 = select0 (hidden_states demo_rollouts) 0"
    "demo_rollouts_hidden = demo_rollouts\<lparr>hidden_states := hidden_states demo_rollouts_hidden\<rparr>"
    by (simp_all add: demo_rollouts_hidden_def demo_rollouts_def select0_def)
  have "hidden_states demo_rollouts_hidden \<noteq> hidden_states demo_rollouts"
    by (simp add: demo_rollouts_hidden_def demo_rollouts_def)
  with h update_reads_hidden_slot0 [OF h, of demo_env demo_a2c] show ?thesis
    by (simp add: demo_update without_storage_def)
qed

lemma item_mean_of: "item (mean_of xs) = sum_list (map item xs) / real (length xs)"
  and deriv_mean_of: "deriv (mean_of xs) = sum_list (map deriv xs) /\<^sub>R real (length xs)"
  by (simp_all add: mean_of_def)

text \<open>
  Claim C4. On a storage laid out for \<open>T\<close> steps and \<open>P\<close> processes, the advantages have
  sizes \<open>(T, P, 1)\<close> and are, element by element, the first \<open>T * P\<close> returns (all slots but
  the last, the bootstrap slot) minus the re-evaluated values; the value loss is the sum
  of the squared advantages divided by their number \<open>T * P\<close>.
\<close>

theorem update_advantages_value_loss:
  assumes "storage_shaped T P os A H r"
    and "T < 2 ^ 31" "P < 2 ^ 31"
    and "0 < prod_list os" "0 < A" "0 < H"
    and "get_hidden_size env = H"
    and "policy_ok env"
    and "update_forward env a r = Inr l"
  shows "sizes (advantages l) = [T, P, 1] \<and>
     length (elems (returns r)) = T * P + P \<and>
     elems (advantages l)
       = map2 sub (map untracked (take (T * P) (elems (returns r)))) (elems (values_t l)) \<and>
     length (elems (advantages l)) = T * P \<and>
     (\<forall>i<T * P. item (elems (advantages l) ! i)
                   = elems (returns r) ! i - item (elems (values_t l) ! i)) \<and>
     (\<exists>vl. single (value_loss l) = Inr vl \<and>
           item vl = (\<Sum>x\<leftarrow>elems (advantages l). (item x)\<^sup>2) / real (T * P))"
proof -
  note f = forward_shaped [OF assms]
  have ret_len: "length (elems (returns r)) = T * P + P"
    using assms(1) by (simp add: storage_shaped_def has_shape_def)
  have adv: "elems (advantages l)
       = map2 sub (map untracked (take (T * P) (elems (returns r)))) (elems (values_t l))"
    by (subst f(8)) simp
  have len: "length (elems (advantages l)) = T * P"
    by (simp add: adv f(5) ret_len)
  have "item (elems (advantages l) ! i) = elems (returns r) ! i - item (elems (values_t l) ! i)"
    if "i < T * P" for i
    using that by (simp add: adv f(5) ret_len sub_def untracked_def)
  moreover have "single (value_loss l) = Inr (mean_of (map (\<lambda>x. pow x 2) (elems (advantages l))))"
    by (subst f(9)) (simp add: single_eq_Inr)
  moreover have "item (mean_of (map (\<lambda>x. pow x 2) (elems (advantages l))))
      = (\<Sum>x\<leftarrow>elems (advantages l). (item x)\<^sup>2) / real (T * P)"
    by (simp add: item_mean_of len pow_def comp_def)
  moreover have "sizes (advantages l) = [T, P, 1]"
    by (subst f(8)) simp
  ultimately show ?thesis
    using ret_len adv len by blast
qed

theorem update_advantages_value_loss_witness:
  "storage_shaped 2 2 [1] 1 1 demo_rollouts \<and> get_hidden_size demo_env = 1 \<and> policy_ok demo_env \<and>
   (\<exists>l. update_forward demo_env demo_a2c demo_rollouts = Inr l \<and>
      map item (elems (advantages l)) = [5 - 1, 4 - 2, 3 - 3, 5 - 4] \<and>
      map item (elems (value_loss l)) = [(4\<^sup>2 + 2\<^sup>2 + 0\<^sup>2 + 1\<^sup>2) / 4])"
proof -
  have small: "(2::nat) < 2 ^ 31" "0 < prod_list [1::nat]" "(0::nat) < 1"
    by simp_all
  have hs: "get_hidden_size demo_env = 1"
    by (simp add: demo_env_fields)
  from update_advantages_value_loss [OF demo_shaped small(1) small(1) small(2) small(3)
      small(3) hs demo_policy_ok demo_forward]
  show ?thesis
    using demo_shaped hs demo_policy_ok
    by (simp add: demo_forward demo_returns sub_def untracked_def)
qed

lemma sum_list_deriv_weighted:
  "sum_list (map deriv (map2 mul (map detach xs) ys))
     = (\<Sum>(x, y)\<leftarrow>zip xs ys. item x *\<^sub>R deriv y)"
  and sum_list_item_weighted:
  "sum_list (map item (map2 mul (map detach xs) ys))
     = (\<Sum>(x, y)\<leftarrow>zip xs ys. item x * item y)"
  by (simp_all add: zip_map1 comp_def case_prod_unfold mul_def detach_def)

text \<open>
  Claim C3. The action loss is the negated mean of the products of the advantages, as
  plain values, with the action log-probabilities: its derivative with respect to the
  parameters consists of the derivatives of the log-probabilities alone, weighted by the
  advantages' values, and vanishes when the log-probabilities are held fixed. The
  derivatives of the value estimates do not enter it. They do enter the value loss: its
  derivative is the mean of \<open>2 * advantage\<close> times the derivative of the advantage,
  which is minus the derivative of the value estimate.
\<close>

theorem update_action_loss_detached:
  assumes "storage_shaped T P os A H r"
    and "T < 2 ^ 31" "P < 2 ^ 31"
    and "0 < prod_list os" "0 < A" "0 < H"
    and "get_hidden_size env = H"
    and "policy_ok env"
    and "update_forward env a r = Inr l"
  shows "\<exists>al vl.
     single (action_loss l) = Inr al \<and> single (value_loss l) = Inr vl \<and>
     item al = - ((\<Sum>(x, y)\<leftarrow>zip (elems (advantages l)) (elems (action_log_probs l)).
                     item x * item y) / real (T * P)) \<and>
     deriv al = - ((\<Sum>(x, y)\<leftarrow>zip (elems (advantages l)) (elems (action_log_probs l)).
                     item x *\<^sub>R deriv y) /\<^sub>R real (T * P)) \<and>
     ((\<forall>y\<in>set (elems (action_log_probs l)). deriv y = 0) \<longrightarrow> deriv al = 0) \<and>
     deriv vl = (\<Sum>x\<leftarrow>elems (advantages l). (2 * item x) *\<^sub>R deriv x) /\<^sub>R real (T * P) \<and>
     (\<forall>i<T * P. deriv (elems (advantages l) ! i) = - deriv (elems (values_t l) ! i))"
proof -
  note f = forward_shaped [OF assms]
  let ?adv = "elems (advantages l)" and ?alp = "elems (action_log_probs l)"
  let ?al = "neg (mean_of (map2 mul (map detach ?adv) ?alp))"
  let ?vl = "mean_of (map (\<lambda>x. pow x 2) ?adv)"
  have ret_len: "length (elems (returns r)) = T * P + P"
    using assms(1) by (simp add: storage_shaped_def has_shape_def)
  have adv: "?adv = map2 sub (map untracked (take (T * P) (elems (returns r)))) (elems (values_t l))"
    by (subst f(8)) simp
  have len: "length ?adv = T * P"
    by (simp add: adv f(5) ret_len)
  have al: "single (action_loss l) = Inr ?al"
    by (subst f(10)) (simp add: single_eq_Inr)
  have vl: "single (value_loss l) = Inr ?vl"
    by (subst f(9)) (simp add: single_eq_Inr)
  have item_al: "item ?al = - ((\<Sum>(x, y)\<leftarrow>zip ?adv ?alp. item x * item y) / real (T * P))"
    by (simp add: neg_def item_mean_of sum_list_item_weighted len f(7) del: map_map)
  have deriv_al: "deriv ?al = - ((\<Sum>(x, y)\<leftarrow>zip ?adv ?alp. item x *\<^sub>R deriv y) /\<^sub>R real (T * P))"
    by (simp add: neg_def deriv_mean_of sum_list_deriv_weighted len f(7) del: map_map)
  have fixed: "deriv ?al = 0" if "\<forall>y\<in>set ?alp. deriv y = 0"
  proof -
    have "(\<Sum>(x, y)\<leftarrow>zip ?adv ?alp. item x *\<^sub>R deriv y) = (\<Sum>z\<leftarrow>zip ?adv ?alp. 0)"
      using that by (intro arg_cong [where f = sum_list] map_cong) (auto dest: set_zip_rightD)
    then show ?thesis
      unfolding deriv_al by simp
  qed
  have deriv_vl: "deriv ?vl = (\<Sum>x\<leftarrow>?adv. (2 * item x) *\<^sub>R deriv x) /\<^sub>R real (T * P)"
    by (simp add: deriv_mean_of len pow_def comp_def)
  have "deriv (?adv ! i) = - deriv (elems (values_t l) ! i)" if "i < T * P" for i
    using that by (simp add: adv f(5) ret_len sub_def untracked_def)
  with al vl item_al deriv_al fixed deriv_vl show ?thesis
    by blast
qed

theorem update_action_loss_detached_witness:
  "storage_shaped 2 2 [1] 1 1 demo_rollouts \<and> get_hidden_size demo_env = 1 \<and> policy_ok demo_env \<and>
   (\<exists>l. update_forward demo_env demo_a2c demo_rollouts = Inr l \<and>
      map item (elems (action_loss l)) = [- ((4 * 1 + 2 * 0 + 0 * 0 + 1 * 1) / 4)] \<and>
      map deriv (elems (action_loss l)) = [- ((4 * 1 + 2 * 0 + 0 * 0 + 1 * 1) / 4)] \<and>
      map deriv (elems (value_loss l))
        = [(2 * 4 * - 1 + 2 * 2 * - 2 + 2 * 0 * - 3 + 2 * 1 * - 4) / 4])"
proof -
  have small: "(2::nat) < 2 ^ 31" "0 < prod_list [1::nat]" "(0::nat) < 1"
    by simp_all
  have hs: "get_hidden_size demo_env = 1"
    by (simp add: demo_env_fields)
  from update_action_loss_detached [OF demo_shaped small(1) small(1) small(2) small(3)
      small(3) hs demo_policy_ok demo_forward]
  show ?thesis
    using demo_shaped hs demo_policy_ok
    by (auto simp: demo_forward single_eq_Inr)
qed

lemma block_take:
  assumes "Suc i * n \<le> m"
  shows "take n (drop (i * n) (take m xs)) = take n (drop (i * n) xs)"
proof -
  from assms have "n \<le> m - i * n" by simp
  then show ?thesis by (simp add: drop_take min_def)
qed

lemma select0_row:
  assumes "sizes x = K # rest" "k < K"
  shows "select0 x (int k)
     = Inr \<lparr>sizes = rest, elems = take (prod_list rest) (drop (k * prod_list rest) (elems x))\<rparr>"
  using assms by (simp add: select0_def Let_def)

lemma entry2_block:
  assumes "sizes x = N # M # rest" "i < N" "j < M"
  shows "entry2 x i j
     = Inr \<lparr>sizes = rest,
            elems = take (prod_list rest) (drop ((i * M + j) * prod_list rest) (elems x))\<rparr>"
proof -
  from assms(3) have "Suc j \<le> M" by simp
  then have "Suc j * prod_list rest \<le> M * prod_list rest"
    by (rule mult_le_mono1)
  note bt = block_take [OF this]
  show ?thesis
    using assms(3)
    by (simp add: entry2_def select0_row [OF assms(1,2)] select0_row [of _ M rest j] bt
        add_mult_distrib add.commute mult.assoc)
qed

lemma flat_row:
  assumes "k < K"
  shows "select0 \<lparr>sizes = K # rest, elems = take (K * prod_list rest) xs\<rparr> (int k)
     = Inr \<lparr>sizes = rest, elems = take (prod_list rest) (drop (k * prod_list rest) xs)\<rparr>"
proof -
  from assms have "Suc k \<le> K" by simp
  then have "Suc k * prod_list rest \<le> K * prod_list rest"
    by (rule mult_le_mono1)
  note bt = block_take [OF this]
  from assms show ?thesis
    by (simp add: select0_row [of _ K rest k] bt)
qed

lemma flat_index:
  assumes "t < T" "p < (P::nat)"
  shows "t * P + p < T * P"
proof -
  have "t * P + p < t * P + P" using assms(2) by simp
  also have "\<dots> = Suc t * P" by simp
  also have "\<dots> \<le> T * P" using assms(1) by (intro mult_le_mono1) simp
  finally show ?thesis .
qed

lemma take1_drop: "k < length xs \<Longrightarrow> take (Suc 0) (drop k xs) = [xs ! k]"
  by (simp add: Cons_nth_drop_Suc [symmetric])

text \<open>
  Claim C5. On a storage laid out for \<open>T\<close> steps and \<open>P\<close> processes, for a step \<open>t < T\<close>
  and a process \<open>p < P\<close>: row \<open>t * P + p\<close> of the flattened observations, masks and
  actions handed to the policy is the observation, mask and action at \<open>[t][p]\<close> of the
  storage, and the entries at \<open>[t][p]\<close> of the reshaped values and log-probabilities are
  elements \<open>t * P + p\<close> of the policy's first and second result.
\<close>

theorem update_flatten_layout:
  assumes "storage_shaped T P os A H r"
    and "T < 2 ^ 31" "P < 2 ^ 31"
    and "0 < prod_list os" "0 < A" "0 < H"
    and "get_hidden_size env = H"
    and "policy_ok env"
    and "update_forward env a r = Inr l"
    and "t < T" "p < P"
  shows "\<exists>obs hid msk act.
     rollout_shapes r = Inr (- 1 # map int os, int A, int T, int P) \<and>
     evaluate_arguments H r (- 1 # map int os) (int A) = Inr (obs, hid, msk, act) \<and>
     evaluate_actions env (parameters (policy a)) obs hid msk act = Inr (evaluate_result l) \<and>
     sizes obs = (T * P) # os \<and> sizes msk = [T * P, 1] \<and> sizes act = [T * P, A] \<and>
     entry2 (observations r) t p
       = Inr \<lparr>sizes = os,
              elems = take (prod_list os)
                        (drop ((t * P + p) * prod_list os) (elems (observations r)))\<rparr> \<and>
     select0 obs (int (t * P + p)) = entry2 (observations r) t p \<and>
     select0 msk (int (t * P + p)) = entry2 (masks r) t p \<and>
     select0 act (int (t * P + p)) = entry2 (actions r) t p \<and>
     sizes (values_t l) = [T, P, 1] \<and> sizes (action_log_probs l) = [T, P, 1] \<and>
     entry2 (values_t l) t p
       = Inr \<lparr>sizes = [1], elems = [elems (evaluate_result l ! 0) ! (t * P + p)]\<rparr> \<and>
     entry2 (action_log_probs l) t p
       = Inr \<lparr>sizes = [1], elems = [elems (evaluate_result l ! 1) ! (t * P + p)]\<rparr>"
proof -
  note sh = assms(1) and tp = assms(10,11)
  note f = forward_shaped [OF assms(1-9)]
  have k: "t * P + p < T * P"
    using tp by (rule flat_index)
  have obs: "sizes (observations r) = Suc T # P # os"
    and msk: "sizes (masks r) = [Suc T, P, 1]"
    and act: "sizes (actions r) = [T, P, A]"
    using sh by (simp_all add: storage_shaped_def has_shape_def)
  from tp have t': "t < Suc T" by simp
  have e_obs: "entry2 (observations r) t p
       = Inr \<lparr>sizes = os,
              elems = take (prod_list os)
                        (drop ((t * P + p) * prod_list os) (elems (observations r)))\<rparr>"
    using entry2_block [OF obs t' tp(2)] .
  have s_obs: "select0 \<lparr>sizes = (T * P) # os,
        elems = take (T * P * prod_list os) (elems (observations r))\<rparr> (int (t * P + p))
      = entry2 (observations r) t p"
    unfolding e_obs using flat_row [OF k] .
  have s_msk: "select0 \<lparr>sizes = [T * P, 1], elems = take (T * P) (elems (masks r))\<rparr>
        (int (t * P + p)) = entry2 (masks r) t p"
    using flat_row [OF k, of "[1]" "elems (masks r)"] entry2_block [OF msk t' tp(2)] by simp
  have s_act: "select0 \<lparr>sizes = [T * P, A], elems = elems (actions r)\<rparr> (int (t * P + p))
      = entry2 (actions r) t p"
    using select0_row [of "\<lparr>sizes = [T * P, A], elems = elems (actions r)\<rparr>" "T * P" "[A]", OF _ k]
      entry2_block [OF act tp] by simp
  have szv: "sizes (values_t l) = [T, P, 1]"
    and elv: "elems (values_t l) = elems (evaluate_result l ! 0)"
    by (subst f(4), simp)+
  have sza: "sizes (action_log_probs l) = [T, P, 1]"
    and ela: "elems (action_log_probs l) = elems (evaluate_result l ! 1)"
    by (subst f(6), simp)+
  have v: "entry2 (values_t l) t p
       = Inr \<lparr>sizes = [1], elems = [elems (evaluate_result l ! 0) ! (t * P + p)]\<rparr>"
    using entry2_block [OF szv tp] k f(5) by (simp add: take1_drop elv)
  have w: "entry2 (action_log_probs l) t p
       = Inr \<lparr>sizes = [1], elems = [elems (evaluate_result l ! 1) ! (t * P + p)]\<rparr>"
    using entry2_block [OF sza tp] k f(7) by (simp add: take1_drop ela)
  note szv sza
  with rollout_shapes_shaped [OF assms(1-3)] evaluate_arguments_shaped [OF assms(1,4-6)]
    f(1) e_obs s_obs s_msk s_act v w
  show ?thesis
    by (intro exI conjI) (assumption | simp)+
qed

lemma demo_observations: "elems (observations demo_rollouts) = [1, 2, 3, 4, 5, 6]"
  by (simp add: demo_rollouts_def)

theorem update_flatten_layout_witness:
  "storage_shaped 2 2 [1] 1 1 demo_rollouts \<and> get_hidden_size demo_env = 1 \<and> policy_ok demo_env \<and>
   (\<exists>l obs hid msk act.
      update_forward demo_env demo_a2c demo_rollouts = Inr l \<and>
      evaluate_arguments 1 demo_rollouts [- 1, 1] 1 = Inr (obs, hid, msk, act) \<and>
      entry2 (observations demo_rollouts) 1 0 = Inr \<lparr>sizes = [1], elems = [3]\<rparr> \<and>
      select0 obs 2 = Inr \<lparr>sizes = [1], elems = [3]\<rparr> \<and>
      entry2 (values_t l) 1 0 = Inr \<lparr>sizes = [1], elems = [\<lparr>item = 3, deriv = 3\<rparr>]\<rparr>)"
proof -
  have small: "(2::nat) < 2 ^ 31" "0 < prod_list [1::nat]" "(0::nat) < 1" "(1::nat) < 2" "(0::nat) < 2"
    by simp_all
  have hs: "get_hidden_size demo_env = 1"
    by (simp add: demo_env_fields)
  from update_flatten_layout [OF demo_shaped small(1) small(1) small(2) small(3)
      small(3) hs demo_policy_ok demo_forward small(4) small(5)]
  show ?thesis
    using demo_shaped hs demo_policy_ok
    by (auto simp: demo_forward demo_observations)
qed

text \<open>
  The clipping threshold is stored by the constructor (line 25) and read nowhere in
  \<^verbatim>\<open>update\<close>: the outcome of a call is the same for every threshold.
\<close>

lemma update_ignores_max_grad_norm:
  "observable (update env (a\<lparr>max_grad_norm := m\<rparr>) r) = observable (update env a r)"
proof -
  have "update_forward env (a\<lparr>max_grad_norm := m\<rparr>) r = update_forward env a r"
    by (rule update_forward_cong) simp_all
  then show ?thesis
    by (cases "update_forward env a r")
      (auto simp: update_def observable_def bindE_def split: sum.splits prod.splits)
qed

text \<open>
  Claim C1. The claim is that with a nonzero \<^verbatim>\<open>max_grad_norm\<close> the norm of the gradient
  is clipped to it before the optimiser steps. The code does not do so: in the instance,
  constructed with \<^verbatim>\<open>max_grad_norm\<close> \<open>1/2\<close>, the call leaves the gradient \<open>-213/50\<close> on the
  parameter, of norm \<open>213/50 > 1/2\<close>, and the optimiser has moved the parameter by the
  learning rate times this whole gradient.
\<close>

theorem update_leaves_gradient_unclipped:
  "update demo_env demo_a2c demo_rollouts = Inr (demo_a2c_after, demo_rollouts, demo_out) \<and>
   max_grad_norm demo_a2c = 1 / 2 \<and>
   norm (grads (policy demo_a2c_after)) = 213 / 50 \<and>
   parameters (policy demo_a2c_after)
     = parameters (policy demo_a2c)
       - lr (opt_options (optimizer demo_a2c)) * grads (policy demo_a2c_after)"
  by (simp add: demo_update demo_a2c_after_def demo_a2c_fields demo_policy_def)

end
